theory Spec2Isabelle
  imports Complex_Main
begin

section \<open>The metaheuristic engine of customhys (metaheuristic.py)\<close>

text \<open>
  The theory embeds the class \<^verbatim>\<open>Metaheuristic\<close>: the compilation of the simple
  heuristics into executable strings (\<^verbatim>\<open>process_heuristics\<close>), the search loop
  (\<^verbatim>\<open>run\<close>) and the historical record (\<^verbatim>\<open>__update_historicals\<close>).
  The class \<^verbatim>\<open>Population\<close> of the module \<^verbatim>\<open>population\<close> is not part of the file: its
  methods are arguments of the model (the record \<open>port\<close>), and so is what Python's
  \<^verbatim>\<open>exec\<close> does with an operator text. Every theorem holds for whatever they do, except
  where a hypothesis says otherwise.
\<close>

subsection \<open>Errors\<close>

text \<open>
  \<open>IndexError\<close> is raised by a list index out of range, \<open>ValueError\<close> by numpy (arrays
  that cannot be broadcast together, the maximum of an empty array, rows of unequal
  length, a negative number of repetitions), \<open>PopulationError\<close> carries whatever a method
  of the population, or the execution of an operator text, raises.
\<close>

datatype error = IndexError | ValueError | PopulationError string

definition seq :: "error + 'a \<Rightarrow> ('a \<Rightarrow> error + 'b) \<Rightarrow> error + 'b" where
  "seq r f = (case r of Inl e \<Rightarrow> Inl e | Inr x \<Rightarrow> f x)"

subsection \<open>Double precision numbers\<close>

text \<open>
  A double is a finite real number, an infinity or NaN. The two zeros are one value:
  the engine only adds, subtracts, multiplies, takes square roots, divides by a count and
  compares, and none of these tells them apart in what it returns here. \<open>round_double\<close>
  rounds a real number to the nearest double, ties to the even mantissa: 53 significant
  bits, multiples of \<open>2 powi - 1074\<close> below the normal range, and an infinity from
  \<open>2 ^ 1024\<close> on.
\<close>

datatype double = Finite real | PosInf | NegInf | NaN

definition rne :: "real \<Rightarrow> int" where
  "rne x = (let f = \<lfloor>x\<rfloor>; r = x - of_int f
            in if r < 1 / 2 then f
               else if 1 / 2 < r then f + 1
               else if even f then f else f + 1)"

definition round_double :: "real \<Rightarrow> double" where
  "round_double x =
     (if x = 0 then Finite 0
      else let e = max (\<lfloor>log 2 \<bar>x\<bar>\<rfloor> - 52) (- 1074);
               y = of_int (rne (x / 2 powi e)) * 2 powi e
           in if 2 ^ 1024 \<le> \<bar>y\<bar> then (if 0 < x then PosInf else NegInf)
              else Finite y)"

definition negative :: "double \<Rightarrow> bool" where
  "negative x = (case x of Finite a \<Rightarrow> a < 0 | NegInf \<Rightarrow> True | _ \<Rightarrow> False)"

definition dneg :: "double \<Rightarrow> double" where
  "dneg x = (case x of Finite a \<Rightarrow> Finite (- a) | PosInf \<Rightarrow> NegInf | NegInf \<Rightarrow> PosInf
             | NaN \<Rightarrow> NaN)"

definition dadd :: "double \<Rightarrow> double \<Rightarrow> double" where
  "dadd x y =
     (case (x, y) of
        (Finite a, Finite b) \<Rightarrow> round_double (a + b)
      | (Finite a, _) \<Rightarrow> y
      | (_, Finite b) \<Rightarrow> x
      | _ \<Rightarrow> if x = y then x else NaN)"

definition dsub :: "double \<Rightarrow> double \<Rightarrow> double" where
  "dsub x y = dadd x (dneg y)"

definition dmul :: "double \<Rightarrow> double \<Rightarrow> double" where
  "dmul x y =
     (case (x, y) of
        (Finite a, Finite b) \<Rightarrow> round_double (a * b)
      | _ \<Rightarrow> if x = NaN \<or> y = NaN \<or> x = Finite 0 \<or> y = Finite 0 then NaN
             else if negative x = negative y then PosInf else NegInf)"

text \<open>The quotient of a double and a count of rows, which is not negative.\<close>

definition div_count :: "double \<Rightarrow> nat \<Rightarrow> double" where
  "div_count x n =
     (case x of
        Finite a \<Rightarrow> if n = 0 then (if a = 0 then NaN else if 0 < a then PosInf else NegInf)
                    else round_double (a / real n)
      | _ \<Rightarrow> x)"

definition dsqrt :: "double \<Rightarrow> double" where
  "dsqrt x = (case x of Finite a \<Rightarrow> if a < 0 then NaN else round_double (sqrt a)
              | PosInf \<Rightarrow> PosInf | _ \<Rightarrow> NaN)"

text \<open>
  The comparisons of Python: \<open>py_le x y\<close> is \<^verbatim>\<open>x <= y\<close> and \<open>py_eq x y\<close> is \<^verbatim>\<open>x == y\<close>,
  both false as soon as an operand is NaN. \<open>dmax\<close> is \<^verbatim>\<open>np.maximum\<close>, which returns NaN
  as soon as an operand is NaN.
\<close>

definition py_le :: "double \<Rightarrow> double \<Rightarrow> bool" where
  "py_le x y =
     (case (x, y) of
        (NaN, _) \<Rightarrow> False
      | (_, NaN) \<Rightarrow> False
      | (NegInf, _) \<Rightarrow> True
      | (_, PosInf) \<Rightarrow> True
      | (Finite a, Finite b) \<Rightarrow> a \<le> b
      | _ \<Rightarrow> False)"

definition py_eq :: "double \<Rightarrow> double \<Rightarrow> bool" where
  "py_eq x y \<longleftrightarrow> x \<noteq> NaN \<and> x = y"

definition dmax :: "double \<Rightarrow> double \<Rightarrow> double" where
  "dmax x y = (if x = NaN \<or> y = NaN then NaN else if py_le x y then y else x)"

subsection \<open>The numpy operations of the record\<close>

text \<open>
  \<^verbatim>\<open>add.reduce\<close> along an axis that is contiguous in memory adds the elements to the
  initial value 0 by pairwise summation: fewer than 8 elements one after the other; up to
  128 elements with 8 accumulators, which take the blocks of 8 elements in turn and are
  added in pairs before the elements left over; more elements in two halves, the first
  of a length that is a multiple of 8. \<open>accumulate8 r a\<close> adds the whole blocks of \<open>a\<close>
  to the accumulators \<open>r\<close>.
\<close>

fun accumulate8 :: "double list \<Rightarrow> double list \<Rightarrow> double list" where
  "accumulate8 r a =
     (if length a < 8 then r
      else accumulate8 (map (\<lambda>(u, v). dadd u v) (zip r (take 8 a))) (drop 8 a))"

function pairwise_sum :: "double list \<Rightarrow> double" where
  "pairwise_sum a =
     (if length a < 8 then foldl dadd (Finite 0) a
      else if length a \<le> 128 then
        let r = accumulate8 (take 8 a) (drop 8 a);
            res = dadd (dadd (dadd (r ! 0) (r ! 1)) (dadd (r ! 2) (r ! 3)))
                       (dadd (dadd (r ! 4) (r ! 5)) (dadd (r ! 6) (r ! 7)))
        in foldl dadd res (drop (length a - length a mod 8) a)
      else dadd (pairwise_sum (take (length a div 2 - length a div 2 mod 8) a))
                (pairwise_sum (drop (length a div 2 - length a div 2 mod 8) a)))"
  by pat_completeness auto
termination
  by (relation "measure length") auto

definition add_reduce :: "double list \<Rightarrow> double" where
  "add_reduce a = dadd (Finite 0) (pairwise_sum a)"

text \<open>
  Along the first axis of an array of rows with two columns or more the reduction adds
  one row after the other to the initial value; an array of one column is contiguous
  along its first axis and is summed as a flat array.
\<close>

definition sum_axis0 :: "nat \<Rightarrow> double list \<Rightarrow> double" where
  "sum_axis0 d col = (if d = 1 then add_reduce col else foldl dadd (Finite 0) col)"

text \<open>
  An array is a number (zero dimensions), a flat sequence, or a matrix: its number of
  columns and its rows. \<^verbatim>\<open>np.array\<close> makes a matrix of a list of rows of one length and
  the empty flat array of the empty list, which is a matrix of one row without columns
  when it is broadcast against a matrix. Rows of unequal length make no array.
\<close>

datatype ndarray = Scalar double | Vector "double list"

type_synonym matrix = "nat \<times> double list list"

definition homogeneous :: "double list list \<Rightarrow> bool" where
  "homogeneous rows = list_all (\<lambda>r. length r = length (hd rows)) rows"

definition column :: "double list list \<Rightarrow> nat \<Rightarrow> double list" where
  "column rows j = map (\<lambda>r. r ! j) rows"

definition as_matrix :: "double list list \<Rightarrow> error + matrix" where
  "as_matrix rows =
     (if rows = [] then Inr (0, [[]])
      else if homogeneous rows then Inr (length (hd rows), rows)
      else Inl ValueError)"

text \<open>
  \<^verbatim>\<open>np.array(positions).mean(0)\<close>: the sum along the first axis divided by the number of
  rows. The mean of the empty flat array is the number 0 / 0, which is NaN.
\<close>

definition np_mean0 :: "double list list \<Rightarrow> error + ndarray" where
  "np_mean0 rows =
     (if rows = [] then Inr (Scalar (div_count (add_reduce []) 0))
      else if homogeneous rows
      then Inr (Vector (map (\<lambda>j. div_count (sum_axis0 (length (hd rows)) (column rows j))
                                     (length rows))
                          [0 ..< length (hd rows)]))
      else Inl ValueError)"

text \<open>
  \<^verbatim>\<open>np.tile(centroid, (num_agents, 1))\<close>: \<open>num_agents\<close> copies of the centroid as rows, a
  number being a row of one column.
\<close>

definition np_tile :: "ndarray \<Rightarrow> int \<Rightarrow> error + matrix" where
  "np_tile c n =
     (if n < 0 then Inl ValueError
      else Inr (case c of Scalar x \<Rightarrow> (1, replicate (nat n) [x])
                        | Vector v \<Rightarrow> (length v, replicate (nat n) v)))"

text \<open>
  The difference of two matrices, with broadcasting: along each axis the two lengths are
  equal or one of them is 1, and what has length 1 is repeated.
\<close>

definition broadcast :: "nat \<Rightarrow> nat \<Rightarrow> error + nat" where
  "broadcast a b = (if a = b then Inr a else if a = 1 then Inr b
                    else if b = 1 then Inr a else Inl ValueError)"

definition stretch :: "nat \<Rightarrow> 'b list \<Rightarrow> 'b list" where
  "stretch k xs = (if length xs = k then xs else replicate k (hd xs))"

definition np_subtract :: "matrix \<Rightarrow> matrix \<Rightarrow> error + matrix" where
  "np_subtract a b =
     seq (broadcast (fst a) (fst b)) (\<lambda>c.
     seq (broadcast (length (snd a)) (length (snd b))) (\<lambda>r.
     Inr (c, map (\<lambda>(x, y). map (\<lambda>(u, v). dsub u v) (zip (stretch c x) (stretch c y)))
                 (zip (stretch r (snd a)) (stretch r (snd b))))))"

text \<open>
  \<^verbatim>\<open>np.linalg.norm(x, 2, 1)\<close>: for every row the square root of the sum, along the
  contiguous axis, of the squares of its elements.
\<close>

definition np_norm_rows :: "matrix \<Rightarrow> double list" where
  "np_norm_rows x = map (\<lambda>r. dsqrt (add_reduce (map (\<lambda>v. dmul v v) r))) (snd x)"

definition np_max :: "double list \<Rightarrow> error + double" where
  "np_max xs = (case xs of [] \<Rightarrow> Inl ValueError | y # ys \<Rightarrow> Inr (foldl dmax y ys))"

subsection \<open>The population\<close>

text \<open>
  The attributes of the population that the engine reads or sets. The record is
  extensible: whatever else a population holds is in its \<open>more\<close> part. The positions
  are the list of the rows that \<^verbatim>\<open>np.array\<close> reads. The engine never looks into the
  best position: it stores the object itself (line 197), so the attribute is the identity
  of the object it is bound to, and what the object holds is the business of the
  population.
\<close>

type_synonym obj = nat

record population =
  positions :: "double list list"
  global_best_fitness :: double
  global_best_position :: obj
  iteration :: int

subsection \<open>Compiling the simple heuristics\<close>

text \<open>
  A parameter value is a string, an integer or a Boolean; a value of any other type
  (a float, say) is \<open>PRepr t\<close>, where \<open>t\<close> is the text that \<^verbatim>\<open>format\<close> renders for it.
  The parameters of a heuristic are a dictionary, here the list of its items in the
  order of iteration.
\<close>

datatype pyvalue = PStr string | PInt int | PBool bool | PRepr string

type_synonym heuristic = "string \<times> (string \<times> pyvalue) list \<times> string"

definition digit_char :: "nat \<Rightarrow> char" where
  "digit_char d = ''0123456789'' ! d"

function str_nat :: "nat \<Rightarrow> string" where
  "str_nat n = (if n < 10 then [digit_char n]
                else str_nat (n div 10) @ [digit_char (n mod 10)])"
  by pat_completeness auto
termination
  by (relation "measure id") auto

definition str_int :: "int \<Rightarrow> string" where
  "str_int i = (if i < 0 then CHR ''-'' # str_nat (nat (- i)) else str_nat (nat i))"

fun format_value :: "pyvalue \<Rightarrow> string" where
  "format_value (PStr s) = s"
| "format_value (PInt i) = str_int i"
| "format_value (PBool b) = (if b then ''True'' else ''False'')"
| "format_value (PRepr t) = t"

definition is_str :: "pyvalue \<Rightarrow> bool" where
  "is_str v = (case v of PStr _ \<Rightarrow> True | _ \<Rightarrow> False)"

definition quote :: char where
  "quote = CHR 0x27"

text \<open>Lines 93 to 96: one \<^verbatim>\<open>name = value\<close> item, the value in quotes when it is a string.\<close>

definition str_parameter :: "string \<times> pyvalue \<Rightarrow> string" where
  "str_parameter item =
     (case item of (parameter, v) \<Rightarrow>
        if is_str v then parameter @ '' = '' @ [quote] @ format_value v @ [quote]
        else parameter @ '' = '' @ format_value v)"

fun join :: "string \<Rightarrow> string list \<Rightarrow> string" where
  "join sep [] = []"
| "join sep [x] = x"
| "join sep (x # y # ys) = x @ sep @ join sep (y # ys)"

definition full_string :: "string \<Rightarrow> (string \<times> pyvalue) list \<Rightarrow> string" where
  "full_string operator parameters =
     (if 0 \<le> length parameters
      then operator @ ''('' @ join '','' (map str_parameter parameters) @ '')''
      else operator @ ''()'')"

fun process_loop ::
  "heuristic list \<Rightarrow> string list \<times> string list \<Rightarrow> string list \<times> string list" where
  "process_loop [] acc = acc"
| "process_loop ((operator, parameters, selector) # rest) (executable_operators, sels) =
     process_loop rest
       (executable_operators @ [full_string operator parameters], sels @ [selector])"

definition process_heuristics :: "heuristic list \<Rightarrow> string list \<times> string list" where
  "process_heuristics simple_heuristics = process_loop simple_heuristics ([], [])"

subsection \<open>The engine\<close>

record 'a metaheuristic =
  pop :: "'a population_scheme"
  operators :: "string list"
  selectors :: "string list"
  num_iterations :: int
  num_agents :: int
  historical_global_fitness :: "double list"
  historical_global_position :: "obj list"
  historical_centroid :: ndarray
  historical_radius :: "double list"
  historical_stagnation :: "int list"

text \<open>
  \<^verbatim>\<open>__init__\<close>: \<open>p\<close> is the population that \<^verbatim>\<open>pop.Population\<close> has built for
  \<open>num_agents\<close> agents. The empty list that the centroid is bound to at first is the flat
  array without elements. The flag \<^verbatim>\<open>verbose\<close> and the number of dimensions are not
  kept: nothing modelled here reads them.
\<close>

definition init ::
  "'a population_scheme \<Rightarrow> heuristic list \<Rightarrow> int \<Rightarrow> int \<Rightarrow> 'a metaheuristic" where
  "init p simple_heuristics threshold_iterations n =
     (case process_heuristics simple_heuristics of (ops, sels) \<Rightarrow>
        \<lparr>pop = p, operators = ops, selectors = sels,
         num_iterations = threshold_iterations, num_agents = n,
         historical_global_fitness = [], historical_global_position = [],
         historical_centroid = Vector [], historical_radius = [],
         historical_stagnation = []\<rparr>)"

subsection \<open>The methods of the population and the execution of a text\<close>

text \<open>
  While \<^verbatim>\<open>run\<close> walks through the steps (line 137), \<^verbatim>\<open>zip\<close> holds the two list objects
  that the attributes \<^verbatim>\<open>operators\<close> and \<^verbatim>\<open>selectors\<close> were bound to when the walk began,
  and reads them again at every step. A \<open>frame\<close> is what a text executed at line 139 can
  reach through \<^verbatim>\<open>self\<close>: the engine with all its attributes, and the contents of the two
  lists under the walk, which change with the attributes when the text changes a list in
  place and stay when it binds an attribute to another list.
\<close>

record 'a frame =
  self :: "'a metaheuristic"
  walked_operators :: "string list"
  walked_selectors :: "string list"

text \<open>
  The methods of \<^verbatim>\<open>Population\<close> that \<^verbatim>\<open>run\<close> calls, each returning the population it
  leaves or the text of the exception it raises. \<open>update_positions\<close> takes the arguments as
  the call passes them (none for \<^verbatim>\<open>update_positions()\<close>, whose defaults the source's
  comment gives as 'population', 'all'). \<open>exec_py\<close> is Python's \<^verbatim>\<open>exec\<close> of a source
  text in the frame of \<^verbatim>\<open>run\<close>: it returns the frame the text leaves or the text of the
  exception. \<open>selection\<close> is the constant \<^verbatim>\<open>__selection__\<close> of the module \<^verbatim>\<open>population\<close>.
  The names of the modules and the local variables of \<^verbatim>\<open>run\<close>, which \<^verbatim>\<open>exec\<close> cannot
  bind, are taken to mean the same throughout, and every attribute keeps its type: a
  text that replaces a method, a function of a module, or a list by a value that is not
  a list is not one that \<open>exec_py\<close> can stand for.
\<close>

record 'a port =
  initialise_uniformly :: "'a population_scheme \<Rightarrow> string + 'a population_scheme"
  evaluate_fitness :: "'a population_scheme \<Rightarrow> string + 'a population_scheme"
  update_positions :: "string list \<Rightarrow> 'a population_scheme \<Rightarrow> string + 'a population_scheme"
  exec_py :: "string \<Rightarrow> 'a frame \<Rightarrow> string + 'a frame"
  get_state :: "'a population_scheme \<Rightarrow> string + 'a population_scheme"
  selection :: "string list"

text \<open>
  \<open>call f m\<close> is a method call \<^verbatim>\<open>self.pop.f(...)\<close> inside the engine, \<open>call_in f fr\<close> the
  same call while the steps are walked, and \<open>exec_in P source fr\<close> the execution of a
  text.
\<close>

definition call ::
  "('a population_scheme \<Rightarrow> string + 'a population_scheme) \<Rightarrow> 'a metaheuristic
     \<Rightarrow> error + 'a metaheuristic" where
  "call f m = (case f (pop m) of Inl e \<Rightarrow> Inl (PopulationError e)
                               | Inr p \<Rightarrow> Inr (m\<lparr>pop := p\<rparr>))"

definition call_in ::
  "('a population_scheme \<Rightarrow> string + 'a population_scheme) \<Rightarrow> 'a frame
     \<Rightarrow> error + 'a frame" where
  "call_in f fr = seq (call f (self fr)) (\<lambda>m. Inr (fr\<lparr>self := m\<rparr>))"

definition exec_in :: "'a port \<Rightarrow> string \<Rightarrow> 'a frame \<Rightarrow> error + 'a frame" where
  "exec_in P source fr = (case exec_py P source fr of Inl e \<Rightarrow> Inl (PopulationError e)
                                                    | Inr fr' \<Rightarrow> Inr fr')"

text \<open>\<open>from_end xs k\<close> is Python's \<^verbatim>\<open>xs[-k]\<close>.\<close>

definition from_end :: "'b list \<Rightarrow> nat \<Rightarrow> error + 'b" where
  "from_end xs k = (if 1 \<le> k \<and> k \<le> length xs then Inr (xs ! (length xs - k))
                    else Inl IndexError)"

subsubsection \<open>\<^verbatim>\<open>__update_historicals\<close>\<close>

text \<open>Lines 201 to 203: the largest distance of a position from the centroid.\<close>

definition radius_of :: "double list list \<Rightarrow> ndarray \<Rightarrow> int \<Rightarrow> error + double" where
  "radius_of pos centroid n =
     seq (np_tile centroid n) (\<lambda>tiled.
     seq (as_matrix pos) (\<lambda>a.
     seq (np_subtract a tiled) (\<lambda>diff.
     np_max (np_norm_rows diff))))"

text \<open>
  The stagnation counter: \<^verbatim>\<open>and\<close> evaluates its second operand, and with it the index
  -2, only when the iteration is positive.
\<close>

definition instantaneous_stagnation ::
  "int \<Rightarrow> double list \<Rightarrow> int list \<Rightarrow> error + int" where
  "instantaneous_stagnation it fitness stagnation =
     (if 0 < it then
        seq (from_end fitness 2) (\<lambda>a.
        seq (from_end fitness 1) (\<lambda>b.
        if py_eq a b then seq (from_end stagnation 1) (\<lambda>s. Inr (s + 1))
        else Inr 0))
      else Inr 0)"

definition update_historicals :: "'a metaheuristic \<Rightarrow> error + 'a metaheuristic" where
  "update_historicals m =
     (let m1 = m\<lparr>historical_global_fitness :=
                   historical_global_fitness m @ [global_best_fitness (pop m)]\<rparr>;
          m2 = m1\<lparr>historical_global_position :=
                   historical_global_position m1 @ [global_best_position (pop m1)]\<rparr>
      in seq (np_mean0 (positions (pop m2))) (\<lambda>c.
         let m3 = m2\<lparr>historical_centroid := c\<rparr>
         in seq (radius_of (positions (pop m3)) (historical_centroid m3) (num_agents m3)) (\<lambda>r.
            let m4 = m3\<lparr>historical_radius := historical_radius m3 @ [r]\<rparr>
            in seq (instantaneous_stagnation (iteration (pop m4))
                      (historical_global_fitness m4) (historical_stagnation m4)) (\<lambda>s.
               Inr (m4\<lparr>historical_stagnation := historical_stagnation m4 @ [s]\<rparr>)))))"

subsubsection \<open>\<^verbatim>\<open>run\<close>\<close>

definition set_iteration :: "int \<Rightarrow> 'a metaheuristic \<Rightarrow> 'a metaheuristic" where
  "set_iteration k m = m\<lparr>pop := (pop m)\<lparr>iteration := k\<rparr>\<rparr>"

text \<open>Lines 113 to 124: the population is initialised, evaluated and updated.\<close>

definition bootstrap :: "'a port \<Rightarrow> 'a metaheuristic \<Rightarrow> error + 'a metaheuristic" where
  "bootstrap P m =
     seq (call (initialise_uniformly P) (set_iteration 0 m)) (\<lambda>m1.
     seq (call (evaluate_fitness P) m1) (\<lambda>m2.
     seq (call (update_positions P []) m2) (\<lambda>m3.
     seq (call (update_positions P [''particular'', ''all'']) m3) (\<lambda>m4.
     call (update_positions P [''global'', ''greedy'']) m4))))"

text \<open>Lines 138 to 151: the body of the loop over the operators and selectors.\<close>

definition apply_step ::
  "'a port \<Rightarrow> string \<times> string \<Rightarrow> 'a frame \<Rightarrow> error + 'a frame" where
  "apply_step P step fr =
     (case step of (operator, selector) \<Rightarrow>
        seq (exec_in P (''self.pop.'' @ operator) fr) (\<lambda>fr1.
        seq (call_in (evaluate_fitness P) fr1) (\<lambda>fr2.
        seq (if selector \<in> set (selection P)
             then call_in (update_positions P [''population'', selector]) fr2
             else call_in (update_positions P []) fr2) (\<lambda>fr3.
        call_in (update_positions P [''global'', ''greedy'']) fr3))))"

text \<open>
  Line 137: the loop over \<^verbatim>\<open>zip(self.operators, self.selectors)\<close>. The iterators of the
  two lists stand at the index \<open>i\<close>; the loop ends as soon as one of the lists, as it is
  then, has no element at this index. A text that makes the lists longer at every step
  keeps the loop from ending, so the result is an option: \<open>None\<close> is the loop that
  does not return.
\<close>

partial_function (option) steps ::
  "'a port \<Rightarrow> nat \<Rightarrow> 'a frame \<Rightarrow> (error + 'a frame) option" where
  "steps P i fr =
     (if i < length (walked_operators fr) \<and> i < length (walked_selectors fr)
      then case apply_step P (walked_operators fr ! i, walked_selectors fr ! i) fr of
             Inl e \<Rightarrow> Some (Inl e)
           | Inr fr' \<Rightarrow> steps P (Suc i) fr'
      else Some (Inr fr))"

text \<open>
  Lines 161 to 164: the arguments of the two last messages are computed whether or not
  the engine is verbose; they read the last stagnation and radius and call
  \<^verbatim>\<open>get_state\<close>. What is printed is not modelled.
\<close>

definition report :: "'a port \<Rightarrow> 'a metaheuristic \<Rightarrow> error + 'a metaheuristic" where
  "report P m =
     seq (from_end (historical_stagnation m) 1) (\<lambda>_.
     seq (from_end (historical_radius m) 1) (\<lambda>_.
     call (get_state P) m))"

text \<open>\<open>oseq\<close> continues a computation that has returned without an exception.\<close>

definition oseq ::
  "(error + 'b) option \<Rightarrow> ('b \<Rightarrow> (error + 'c) option) \<Rightarrow> (error + 'c) option" where
  "oseq r f = (case r of None \<Rightarrow> None | Some (Inl e) \<Rightarrow> Some (Inl e) | Some (Inr x) \<Rightarrow> f x)"

text \<open>Lines 131 to 164: one iteration, from the counter to the report.\<close>

definition one_iteration ::
  "'a port \<Rightarrow> int \<Rightarrow> 'a metaheuristic \<Rightarrow> (error + 'a metaheuristic) option" where
  "one_iteration P k m =
     (let m0 = set_iteration k m
      in oseq (steps P 0 \<lparr>self = m0, walked_operators = operators m0,
                           walked_selectors = selectors m0\<rparr>) (\<lambda>fr.
         Some (seq (update_historicals (self fr)) (\<lambda>m2. report P m2))))"

fun iterations ::
  "'a port \<Rightarrow> int list \<Rightarrow> 'a metaheuristic \<Rightarrow> (error + 'a metaheuristic) option" where
  "iterations P [] m = Some (Inr m)"
| "iterations P (k # ks) m = oseq (one_iteration P k m) (iterations P ks)"

text \<open>
  \<^verbatim>\<open>run\<close>: the range of the iterations is computed once, when the loop begins, from the
  number of iterations that the engine holds then.
\<close>

definition run :: "'a port \<Rightarrow> 'a metaheuristic \<Rightarrow> (error + 'a metaheuristic) option" where
  "run P m =
     oseq (Some (seq (bootstrap P m) update_historicals)) (\<lambda>m2.
     iterations P [1 .. num_iterations m2] m2)"

subsection \<open>The run as a schedule of calls\<close>


definition frame_of :: "'a metaheuristic \<Rightarrow> 'a frame" where
  "frame_of m = \<lparr>self = m, walked_operators = operators m, walked_selectors = selectors m\<rparr>"







subsection \<open>What a text may be assumed to leave alone\<close>



text \<open>\<open>shifted k s\<close>: the four lengths \<open>s\<close>, each greater by \<open>k\<close>.\<close>

definition shifted :: "nat \<Rightarrow> nat \<times> nat \<times> nat \<times> nat \<Rightarrow> nat \<times> nat \<times> nat \<times> nat" where
  "shifted k s = (case s of (a, b, c, d) \<Rightarrow> (a + k, b + k, c + k, d + k))"







subsection \<open>Predicates of the proofs\<close>

text \<open>\<open>same_engine m m'\<close>: only the population differs, as after a call of its methods.\<close>

definition same_engine :: "'a metaheuristic \<Rightarrow> 'a metaheuristic \<Rightarrow> bool" where
  "same_engine m m' \<longleftrightarrow> (\<exists>p. m' = m\<lparr>pop := p\<rparr>)"




subsection \<open>Example populations and texts\<close>

text \<open>
  \<open>origin_population\<close> holds one agent at the origin of the plane. \<open>quiet\<close> is what
  \<^verbatim>\<open>exec\<close> does with the calls of two operators, for a population whose
  \<^verbatim>\<open>random_search\<close> changes nothing that the engine reads and whose
  \<^verbatim>\<open>local_random_walk\<close> finds the fitness 1; every other text raises. \<open>scripted\<close>
  knows three texts more, which end in a statement on the engine and a comment sign:
  they are what the compilation makes of an operator name that holds the statement.
  A list that is cleared in place is cleared under the walk too. The methods of the two
  ports succeed and change nothing.
\<close>

definition origin_population :: population where
  "origin_population =
     \<lparr>positions = [[Finite 0, Finite 0]], global_best_fitness = Finite 0,
      global_best_position = 0, iteration = 0\<rparr>"

definition quiet :: "string \<Rightarrow> unit frame \<Rightarrow> string + unit frame" where
  "quiet source fr =
     (if source = ''self.pop.random_search()'' then Inr fr
      else if source = ''self.pop.local_random_walk()''
      then Inr (fr\<lparr>self := (self fr)\<lparr>pop := (pop (self fr))\<lparr>global_best_fitness := Finite 1\<rparr>\<rparr>\<rparr>)
      else Inl ''AttributeError'')"

definition scripted :: "string \<Rightarrow> unit frame \<Rightarrow> string + unit frame" where
  "scripted source fr =
     (if source = ''self.pop.random_search(); self.historical_stagnation.append(99) #()''
      then Inr (fr\<lparr>self := (self fr)\<lparr>historical_stagnation :=
                                         historical_stagnation (self fr) @ [99]\<rparr>\<rparr>)
      else if source = ''self.pop.random_search(); self.historical_global_fitness.clear() #()''
      then Inr (fr\<lparr>self := (self fr)\<lparr>historical_global_fitness := []\<rparr>\<rparr>)
      else if source = ''self.pop.random_search(); self.operators.clear() #()''
      then Inr (fr\<lparr>self := (self fr)\<lparr>operators := []\<rparr>, walked_operators := []\<rparr>)
      else quiet source fr)"

definition quiet_port :: "unit port" where
  "quiet_port =
     \<lparr>initialise_uniformly = Inr, evaluate_fitness = Inr,
      update_positions = (\<lambda>args. Inr), exec_py = quiet, get_state = Inr,
      selection = [''greedy'', ''all'']\<rparr>"

definition scripted_port :: "unit port" where
  "scripted_port =
     \<lparr>initialise_uniformly = Inr, evaluate_fitness = Inr,
      update_positions = (\<lambda>args. Inr), exec_py = scripted, get_state = Inr,
      selection = [''greedy'', ''all'']\<rparr>"

text \<open>
  One step of random search, and what a run of two iterations of it leaves of the
  engine.
\<close>

definition search :: "heuristic list" where
  "search = [(''random_search'', [], ''greedy'')]"

definition search_result :: "unit metaheuristic" where
  "search_result =
     \<lparr>pop = origin_population\<lparr>iteration := 2\<rparr>,
      operators = [''random_search()''], selectors = [''greedy''],
      num_iterations = 2, num_agents = 1,
      historical_global_fitness = [Finite 0, Finite 0, Finite 0],
      historical_global_position = [0, 0, 0],
      historical_centroid = Vector [Finite 0, Finite 0],
      historical_radius = [Finite 0, Finite 0, Finite 0],
      historical_stagnation = [0, 1, 2]\<rparr>"



text \<open>
  A step whose operator name ends in a statement that appends to the sequence of the
  stagnation, and what a run of one iteration of it leaves.
\<close>

definition inject :: "heuristic list" where
  "inject = [(''random_search(); self.historical_stagnation.append(99) #'', [], ''greedy'')]"

definition inject_result :: "unit metaheuristic" where
  "inject_result =
     \<lparr>pop = origin_population\<lparr>iteration := 1\<rparr>,
      operators = [''random_search(); self.historical_stagnation.append(99) #()''],
      selectors = [''greedy''],
      num_iterations = 1, num_agents = 1,
      historical_global_fitness = [Finite 0, Finite 0],
      historical_global_position = [0, 0],
      historical_centroid = Vector [Finite 0, Finite 0],
      historical_radius = [Finite 0, Finite 0],
      historical_stagnation = [0, 99, 100]\<rparr>"









text \<open>
  A step whose operator the population does not have, a step with parameters of every
  type, and a port whose \<^verbatim>\<open>exec\<close> raises with the text it is given.
\<close>

definition unknown :: "heuristic list" where
  "unknown = [(''no_such_operator'', [], ''greedy'')]"

definition tuned :: "heuristic list" where
  "tuned =
     [(''local_random_walk'',
       [(''probability'', PRepr ''0.75''), (''scale'', PInt (- 12)),
        (''distribution'', PStr ''uniform''), (''elitist'', PBool True)],
       ''greedy'')]"

definition echo_port :: "unit port" where
  "echo_port =
     \<lparr>initialise_uniformly = Inr, evaluate_fitness = Inr,
      update_positions = (\<lambda>args. Inr),
      exec_py = (\<lambda>source fr. Inl source),
      get_state = Inr,
      selection = [''greedy'', ''all'']\<rparr>"

text \<open>
  \<open>moved\<close> is an engine after the record of its bootstrap, made with one agent at the
  origin, whose agent has since moved to the point (1, 1) in the first iteration;
  \<open>moved_result\<close> is what the record leaves of it.
\<close>

definition moved :: "unit metaheuristic" where
  "moved =
     \<lparr>pop = \<lparr>positions = [[Finite 1, Finite 1]], global_best_fitness = Finite 0,
             global_best_position = 0, iteration = 1\<rparr>,
      operators = [''random_search()''], selectors = [''greedy''],
      num_iterations = 1, num_agents = 1,
      historical_global_fitness = [Finite 0],
      historical_global_position = [0],
      historical_centroid = Vector [Finite 0, Finite 0],
      historical_radius = [Finite 0],
      historical_stagnation = [0]\<rparr>"

definition moved_result :: "unit metaheuristic" where
  "moved_result =
     \<lparr>pop = \<lparr>positions = [[Finite 1, Finite 1]], global_best_fitness = Finite 0,
             global_best_position = 0, iteration = 1\<rparr>,
      operators = [''random_search()''], selectors = [''greedy''],
      num_iterations = 1, num_agents = 1,
      historical_global_fitness = [Finite 0, Finite 0],
      historical_global_position = [0, 0],
      historical_centroid = Vector [Finite 1, Finite 1],
      historical_radius = [Finite 0, Finite 0],
      historical_stagnation = [0, 1]\<rparr>"







section \<open>Properties\<close>

declare pairwise_sum.simps [simp del] accumulate8.simps [simp del]

lemma seq_Inl [simp]: "seq (Inl e) f = Inl e"
  by (simp add: seq_def)

lemma seq_Inr [simp]: "seq (Inr x) f = f x"
  by (simp add: seq_def)

lemma seq_eq_Inr: "seq r f = Inr y \<longleftrightarrow> (\<exists>x. r = Inr x \<and> f x = Inr y)"
  by (cases r) simp_all

lemma seq_eq_Inl: "seq r f = Inl e \<longleftrightarrow> r = Inl e \<or> (\<exists>x. r = Inr x \<and> f x = Inl e)"
  by (cases r) simp_all

lemma oseq_simps [simp]:
  "oseq None f = None"
  "oseq (Some (Inl e)) f = Some (Inl e)"
  "oseq (Some (Inr x)) f = f x"
  by (simp_all add: oseq_def)




lemma exec_in_Inr: "exec_in P source fr = Inr fr' \<longleftrightarrow> exec_py P source fr = Inr fr'"
  by (simp add: exec_in_def split: sum.splits)





lemma same_engine_refl: "same_engine m m"
  unfolding same_engine_def by (rule exI [of _ "pop m"]) simp






lemma update_historicals_Inr:
  assumes "update_historicals m = Inr m'"
  obtains c r s where
    "np_mean0 (positions (pop m)) = Inr c"
    "radius_of (positions (pop m)) c (num_agents m) = Inr r"
    "instantaneous_stagnation (iteration (pop m))
       (historical_global_fitness m @ [global_best_fitness (pop m)])
       (historical_stagnation m) = Inr s"
    "m' = m\<lparr>historical_global_fitness :=
               historical_global_fitness m @ [global_best_fitness (pop m)],
             historical_global_position :=
               historical_global_position m @ [global_best_position (pop m)],
             historical_centroid := c,
             historical_radius := historical_radius m @ [r],
             historical_stagnation := historical_stagnation m @ [s]\<rparr>"
proof -
  from assms obtain c where c: "np_mean0 (positions (pop m)) = Inr c"
    unfolding update_historicals_def Let_def by (cases "np_mean0 (positions (pop m))") simp_all
  from assms c obtain r where r: "radius_of (positions (pop m)) c (num_agents m) = Inr r"
    unfolding update_historicals_def Let_def
    by (cases "radius_of (positions (pop m)) c (num_agents m)") simp_all
  from assms c r obtain s where s: "instantaneous_stagnation (iteration (pop m))
       (historical_global_fitness m @ [global_best_fitness (pop m)])
       (historical_stagnation m) = Inr s"
    unfolding update_historicals_def Let_def
    by (cases "instantaneous_stagnation (iteration (pop m))
       (historical_global_fitness m @ [global_best_fitness (pop m)])
       (historical_stagnation m)") simp_all
  from assms c r s have "m' = m\<lparr>historical_global_fitness :=
               historical_global_fitness m @ [global_best_fitness (pop m)],
             historical_global_position :=
               historical_global_position m @ [global_best_position (pop m)],
             historical_centroid := c,
             historical_radius := historical_radius m @ [r],
             historical_stagnation := historical_stagnation m @ [s]\<rparr>"
    unfolding update_historicals_def Let_def by simp
  with c r s that show thesis by blast
qed




lemma init_fields:
  "historical_global_fitness (init p hs T n) = []"
  "historical_global_position (init p hs T n) = []"
  "historical_centroid (init p hs T n) = Vector []"
  "historical_radius (init p hs T n) = []"
  "historical_stagnation (init p hs T n) = []"
  "num_iterations (init p hs T n) = T"
  "num_agents (init p hs T n) = n"
  "pop (init p hs T n) = p"
  "operators (init p hs T n) = fst (process_heuristics hs)"
  "selectors (init p hs T n) = snd (process_heuristics hs)"
  by (simp_all add: init_def split: prod.splits)

subsection \<open>The growth of the historical sequences\<close>








lemma shifted_0 [simp]: "shifted 0 s = s"
  by (simp add: shifted_def split: prod.splits)





lemma round_double_0 [simp]: "round_double 0 = Finite 0"
  by (simp add: round_double_def)

lemma zero_ops [simp]:
  "dadd (Finite 0) (Finite 0) = Finite 0"
  "dsub (Finite 0) (Finite 0) = Finite 0"
  "dmul (Finite 0) (Finite 0) = Finite 0"
  "dsqrt (Finite 0) = Finite 0"
  "dmax (Finite 0) (Finite 0) = Finite 0"
  by (simp_all add: dadd_def dsub_def dneg_def dmul_def dsqrt_def dmax_def py_le_def)

lemma div_count_0 [simp]: "0 < n \<Longrightarrow> div_count (Finite 0) n = Finite 0"
  by (simp add: div_count_def)

lemma pairwise_sum_short: "length a < 8 \<Longrightarrow> pairwise_sum a = foldl dadd (Finite 0) a"
  by (subst pairwise_sum.simps) simp

lemma record_origin:
  "np_mean0 [[Finite 0, Finite 0]] = Inr (Vector [Finite 0, Finite 0])"
  "radius_of [[Finite 0, Finite 0]] (Vector [Finite 0, Finite 0]) 1 = Inr (Finite 0)"
  by (simp_all add: np_mean0_def homogeneous_def column_def sum_axis0_def radius_of_def
      np_tile_def as_matrix_def np_subtract_def broadcast_def stretch_def np_norm_rows_def
      add_reduce_def pairwise_sum_short np_max_def)

lemma upto_1_2: "[1 .. 2 :: int] = [1, 2]"
  by (simp add: upto.simps)

lemma upto_1_1: "[1 .. 1 :: int] = [1]"
  by (simp add: upto.simps)

lemma search_plan: "process_heuristics search = ([''random_search()''], [''greedy''])"
  by (simp add: search_def process_heuristics_def full_string_def)

lemma run_search:
  "run quiet_port (init origin_population search 2 1) = Some (Inr search_result)"
  by (simp add: run_def bootstrap_def call_def call_in_def exec_in_def set_iteration_def
      quiet_port_def quiet_def origin_population_def search_result_def init_def
      search_plan update_historicals_def record_origin instantaneous_stagnation_def
      from_end_def py_eq_def one_iteration_def steps.simps apply_step_def report_def upto_1_2)



lemma inject_plan:
  "process_heuristics inject =
     ([''random_search(); self.historical_stagnation.append(99) #()''], [''greedy''])"
  by (simp add: inject_def process_heuristics_def full_string_def)

lemma run_inject:
  "run scripted_port (init origin_population inject 1 1) = Some (Inr inject_result)"
  by (simp add: run_def bootstrap_def call_def call_in_def exec_in_def set_iteration_def
      scripted_port_def scripted_def origin_population_def inject_result_def init_def
      inject_plan update_historicals_def record_origin instantaneous_stagnation_def
      from_end_def py_eq_def one_iteration_def steps.simps apply_step_def report_def upto_1_1)



subsection \<open>The stagnation counter\<close>




















subsection \<open>The indices of the record\<close>




























subsection \<open>The order of the calls of a run\<close>



lemma seq_return [simp]: "seq r Inr = r"
  by (cases r) simp_all

lemma seq_cong_Inr: "(\<And>x. r = Inr x \<Longrightarrow> f x = g x) \<Longrightarrow> seq r f = seq r g"
  by (cases r) simp_all




lemma frame_of_pop: "(frame_of m)\<lparr>self := m\<lparr>pop := p\<rparr>\<rparr> = frame_of (m\<lparr>pop := p\<rparr>)"
  by (simp add: frame_of_def)

















subsection \<open>The compilation of the plan\<close>

lemma process_loop_maps:
  "process_loop hs (ops, sels) =
     (ops @ map (\<lambda>(operator, parameters, selector). full_string operator parameters) hs,
      sels @ map (\<lambda>(operator, parameters, selector). selector) hs)"
  by (induction hs arbitrary: ops sels) auto

text \<open>
  C4: the compilation of a sequence of heuristic descriptors consults no registry of
  operators and raises no error, whatever the operator names: it returns the whole plan,
  one step for every descriptor and in the order of the descriptors, the step being the
  text of the call of the operator and the selector.
\<close>

theorem compilation_never_rejects:
  "process_heuristics hs =
     (map (\<lambda>(operator, parameters, selector). full_string operator parameters) hs,
      map (\<lambda>(operator, parameters, selector). selector) hs) \<and>
   length (fst (process_heuristics hs)) = length hs \<and>
   length (snd (process_heuristics hs)) = length hs"
  by (simp add: process_heuristics_def process_loop_maps)

lemma unknown_plan: "process_heuristics unknown = ([''no_such_operator()''], [''greedy''])"
  by (simp add: unknown_def process_heuristics_def full_string_def)

theorem compilation_never_rejects_witness:
  "process_heuristics unknown = ([''no_such_operator()''], [''greedy'']) \<and>
   length (fst (process_heuristics unknown)) = 1"
  using compilation_never_rejects [of unknown]
  by (simp add: unknown_def full_string_def)

theorem unknown_operator_counterexample:
  "exec_py quiet_port ''self.pop.no_such_operator()''
     (frame_of (set_iteration 1 (init origin_population unknown 1 1))) =
     Inl ''AttributeError'' \<and>
   process_heuristics unknown = ([''no_such_operator()''], [''greedy'']) \<and>
   operators (init origin_population unknown 1 1) = [''no_such_operator()''] \<and>
   run quiet_port (init origin_population unknown 1 1) =
     Some (Inl (PopulationError ''AttributeError''))"
proof (intro conjI)
  show "exec_py quiet_port ''self.pop.no_such_operator()''
     (frame_of (set_iteration 1 (init origin_population unknown 1 1))) =
     Inl ''AttributeError''"
    by (simp add: quiet_port_def quiet_def)
  show "process_heuristics unknown = ([''no_such_operator()''], [''greedy''])"
    by (rule unknown_plan)
  show "operators (init origin_population unknown 1 1) = [''no_such_operator()'']"
    by (simp add: init_fields unknown_plan)
  show "run quiet_port (init origin_population unknown 1 1) =
     Some (Inl (PopulationError ''AttributeError''))"
    by (simp add: run_def bootstrap_def call_def call_in_def exec_in_def set_iteration_def
      quiet_port_def quiet_def origin_population_def init_def
      unknown_plan update_historicals_def record_origin instantaneous_stagnation_def
      from_end_def py_eq_def one_iteration_def steps.simps apply_step_def report_def upto_1_1)
qed

subsection \<open>The execution of the operators\<close>

lemma str_int_minus_12: "str_int (- 12) = ''-12''"
  by (simp add: str_int_def digit_char_def)

lemma tuned_plan:
  "process_heuristics tuned =
     ([''local_random_walk(probability = 0.75,scale = -12,distribution = '' @ [quote] @
       ''uniform'' @ [quote] @ '',elitist = True)''], [''greedy''])"
  by (simp add: tuned_def process_heuristics_def full_string_def str_parameter_def is_str_def
      str_int_minus_12)

theorem exec_counterexample:
  "run echo_port (init origin_population tuned 1 1) =
     Some (Inl (PopulationError
       (''self.pop.local_random_walk(probability = 0.75,scale = -12,distribution = '' @
        [quote] @ ''uniform'' @ [quote] @ '',elitist = True)''))) \<and>
   run scripted_port (init origin_population inject 1 1) = Some (Inr inject_result) \<and>
   operators (init origin_population inject 1 1) =
     [''random_search(); self.historical_stagnation.append(99) #()''] \<and>
   historical_stagnation inject_result = [0, 99, 100]"
proof (intro conjI)
  show "run echo_port (init origin_population tuned 1 1) =
     Some (Inl (PopulationError
       (''self.pop.local_random_walk(probability = 0.75,scale = -12,distribution = '' @
        [quote] @ ''uniform'' @ [quote] @ '',elitist = True)'')))"
    by (simp add: tuned_plan init_def run_def bootstrap_def call_def call_in_def
      exec_in_def set_iteration_def echo_port_def origin_population_def update_historicals_def
      record_origin instantaneous_stagnation_def one_iteration_def steps.simps apply_step_def
      upto_1_1)
  show "run scripted_port (init origin_population inject 1 1) = Some (Inr inject_result)"
    by (rule run_inject)
  show "operators (init origin_population inject 1 1) =
     [''random_search(); self.historical_stagnation.append(99) #()'']"
    by (simp add: init_fields inject_plan)
  show "historical_stagnation inject_result = [0, 99, 100]"
    by (simp add: inject_result_def)
qed

text \<open>
  C5: a compiled step is a text, the name of the operator followed by its parameters in
  parentheses, and the operator is invoked by the execution of this text after
  \<^verbatim>\<open>self.pop.\<close>: when the execution raises, the step raises what it raised, and a step
  that completes has executed the text.
\<close>

theorem operators_run_by_exec:
  "fst (process_heuristics hs) =
     map (\<lambda>(operator, parameters, selector).
            operator @ ''('' @ join '','' (map str_parameter parameters) @ '')'') hs \<and>
   (exec_py P (''self.pop.'' @ source) fr = Inl e \<longrightarrow>
      apply_step P (source, selector) fr = Inl (PopulationError e)) \<and>
   (apply_step P (source, selector) fr = Inr fr' \<longrightarrow>
      (\<exists>fr1. exec_py P (''self.pop.'' @ source) fr = Inr fr1))"
proof (intro conjI impI)
  show "fst (process_heuristics hs) =
     map (\<lambda>(operator, parameters, selector).
            operator @ ''('' @ join '','' (map str_parameter parameters) @ '')'') hs"
    by (simp add: process_heuristics_def process_loop_maps full_string_def)
next
  assume "exec_py P (''self.pop.'' @ source) fr = Inl e"
  then show "apply_step P (source, selector) fr = Inl (PopulationError e)"
    by (simp add: apply_step_def exec_in_def)
next
  assume "apply_step P (source, selector) fr = Inr fr'"
  then obtain fr1 where "exec_in P (''self.pop.'' @ source) fr = Inr fr1"
    unfolding apply_step_def prod.case seq_eq_Inr by blast
  then show "\<exists>fr1. exec_py P (''self.pop.'' @ source) fr = Inr fr1"
    by (auto simp: exec_in_Inr)
qed

lemma echo_exec: "exec_py echo_port source fr = Inl source"
  by (simp add: echo_port_def)

lemma quiet_step:
  "apply_step quiet_port (''random_search()'', selector) fr = Inr fr"
  by (simp add: apply_step_def exec_in_def call_in_def call_def quiet_port_def quiet_def)

theorem operators_run_by_exec_witness:
  "fst (process_heuristics tuned) =
     [''local_random_walk(probability = 0.75,scale = -12,distribution = '' @ [quote] @
      ''uniform'' @ [quote] @ '',elitist = True)''] \<and>
   exec_py echo_port (''self.pop.'' @ ''random_search()'') (frame_of search_result) =
     Inl ''self.pop.random_search()'' \<and>
   apply_step echo_port (''random_search()'', ''greedy'') (frame_of search_result) =
     Inl (PopulationError ''self.pop.random_search()'') \<and>
   apply_step quiet_port (''random_search()'', ''greedy'') (frame_of search_result) =
     Inr (frame_of search_result) \<and>
   (\<exists>fr1. exec_py quiet_port (''self.pop.'' @ ''random_search()'') (frame_of search_result) =
      Inr fr1)"
  using operators_run_by_exec [of tuned echo_port "''random_search()''" "frame_of search_result"
      "''self.pop.random_search()''" "''greedy''"]
    operators_run_by_exec [of tuned quiet_port "''random_search()''" "frame_of search_result" _
      "''greedy''" "frame_of search_result"]
  by (simp add: echo_exec quiet_step tuned_def str_parameter_def is_str_def str_int_minus_12)

subsection \<open>The update of the population in a step\<close>




subsection \<open>Rounding\<close>

lemma rne_of_int [simp]: "rne (of_int k) = k"
  by (simp add: rne_def)

lemma rne_numeral [simp]:
  "rne (numeral n) = numeral n" "rne (- numeral n) = - numeral n" "rne 0 = 0" "rne 1 = 1"
  using rne_of_int [of "numeral n"] rne_of_int [of "- numeral n"] rne_of_int [of 0]
    rne_of_int [of 1]
  by simp_all


lemma rne_bound: "\<bar>real_of_int (rne x)\<bar> \<le> \<bar>x\<bar> + 1"
proof -
  have f: "real_of_int \<lfloor>x\<rfloor> \<le> x" "x < real_of_int \<lfloor>x\<rfloor> + 1"
    by linarith+
  have "rne x = \<lfloor>x\<rfloor> \<or> rne x = \<lfloor>x\<rfloor> + 1"
    by (auto simp: rne_def Let_def)
  then show ?thesis
  proof
    assume r: "rne x = \<lfloor>x\<rfloor>"
    show ?thesis
      unfolding r using f by linarith
  next
    assume r: "rne x = \<lfloor>x\<rfloor> + 1"
    show ?thesis
      unfolding r of_int_add of_int_1 using f by linarith
  qed
qed

lemma floor_log2_scaled:
  fixes x :: real and k :: nat
  assumes "2 ^ 52 \<le> \<bar>x\<bar> * 2 ^ k" and "\<bar>x\<bar> * 2 ^ k < 2 ^ 53"
  shows "\<lfloor>log 2 \<bar>x\<bar>\<rfloor> = 52 - int k"
proof -
  from assms(1) have pos: "0 < \<bar>x\<bar>"
    by (cases "x = 0") simp_all
  have p52: "(2::real) powr (of_int (52 - int k)) = 2 ^ 52 / 2 ^ k"
    by (simp add: powr_diff powr_realpow flip: powr_numeral)
  have p53: "(2::real) powr (of_int (52 - int k + 1)) = 2 ^ 53 / 2 ^ k"
  proof -
    have "(2::real) powr (of_int (52 - int k + 1)) = 2 powr (53 - real k)"
      by simp
    also have "\<dots> = 2 ^ 53 / 2 ^ k"
      by (simp add: powr_diff powr_realpow flip: powr_numeral)
    finally show ?thesis .
  qed
  from assms have "2 ^ 52 / 2 ^ k \<le> \<bar>x\<bar>" "\<bar>x\<bar> < 2 ^ 53 / 2 ^ k"
    by (simp_all add: field_simps)
  with p52 p53 have "2 powr (of_int (52 - int k)) \<le> \<bar>x\<bar> \<and>
      \<bar>x\<bar> < 2 powr (of_int (52 - int k + 1))"
    by simp
  with pos show ?thesis
    using floor_log_eq_powr_iff [of "\<bar>x\<bar>" 2 "52 - int k"] by simp
qed

lemma round_double_scaled:
  fixes x :: real and k :: nat
  assumes "2 ^ 52 \<le> \<bar>x\<bar> * 2 ^ k" and "\<bar>x\<bar> * 2 ^ k < 2 ^ 53" and "k \<le> 1074"
  shows "round_double x = Finite (of_int (rne (x * 2 ^ k)) / 2 ^ k)"
proof -
  from assms(1) have nz: "x \<noteq> 0"
    by auto
  have e: "max (\<lfloor>log 2 \<bar>x\<bar>\<rfloor> - 52) (- 1074) = - int k"
    using floor_log2_scaled [OF assms(1,2)] assms(3) by simp
  have p: "(2::real) powi (- int k) = 1 / 2 ^ k"
    by (simp add: power_int_minus divide_inverse)
  let ?y = "real_of_int (rne (x * 2 ^ k)) / 2 ^ k"
  have "\<bar>real_of_int (rne (x * 2 ^ k))\<bar> \<le> \<bar>x * 2 ^ k\<bar> + 1"
    by (rule rne_bound)
  also have "\<dots> < 2 ^ 53 + 1"
    using assms(2) by (simp add: abs_mult)
  finally have "\<bar>real_of_int (rne (x * 2 ^ k))\<bar> < 2 ^ 53 + 1" .
  moreover have "\<bar>?y\<bar> \<le> \<bar>real_of_int (rne (x * 2 ^ k))\<bar>"
  proof -
    have "\<bar>real_of_int (rne (x * 2 ^ k))\<bar> * 1 \<le>
        \<bar>real_of_int (rne (x * 2 ^ k))\<bar> * 2 ^ k"
      by (rule mult_left_mono) simp_all
    then show ?thesis
      by (simp add: abs_divide field_simps)
  qed
  ultimately have "\<bar>?y\<bar> < 2 ^ 1024"
    by simp
  then have small: "\<not> 2 ^ 1024 \<le> \<bar>?y\<bar>"
    by simp
  have "of_int (rne (x / 2 powi (- int k))) * 2 powi (- int k) = ?y"
    unfolding p by simp
  with nz e small show ?thesis
    unfolding round_double_def Let_def by simp
qed


lemma round_double_1 [simp]: "round_double 1 = Finite 1"
  using round_double_scaled [of 1 52] by simp

subsection \<open>The centroid\<close>

text \<open>
  C6: the centroid is not a sequence with one entry for every record. The record binds
  the attribute to the centroid of the moment (line 200), where it appends to the four
  other historical attributes, which \<^verbatim>\<open>__init__\<close> makes empty lists like this one. After
  the run of two iterations of one agent in the plane, the sequence of the radius has
  three entries and the centroid is one point of two coordinates.
\<close>

theorem centroid_overwritten:
  "run quiet_port (init origin_population search 2 1) = Some (Inr search_result) \<and>
   historical_centroid (init origin_population search 2 1) = Vector [] \<and>
   historical_centroid search_result = Vector [Finite 0, Finite 0] \<and>
   length (historical_radius search_result) = 3"
  by (simp add: run_search init_fields) (simp add: search_result_def)

lemma record_moved:
  "np_mean0 [[Finite 1, Finite 1]] = Inr (Vector [Finite 1, Finite 1])"
  "radius_of [[Finite 1, Finite 1]] (Vector [Finite 1, Finite 1]) 1 = Inr (Finite 0)"
  by (simp_all add: np_mean0_def homogeneous_def column_def sum_axis0_def radius_of_def
      np_tile_def as_matrix_def np_subtract_def broadcast_def stretch_def np_norm_rows_def
      add_reduce_def pairwise_sum_short np_max_def dadd_def dsub_def dneg_def div_count_def)

lemma update_moved: "update_historicals moved = Inr moved_result"
  by (simp add: update_historicals_def moved_def moved_result_def record_moved
      instantaneous_stagnation_def from_end_def py_eq_def)

lemma record_appends:
  assumes "update_historicals m = Inr m'"
  shows "pop m' = pop m \<and>
         historical_global_fitness m' =
           historical_global_fitness m @ [global_best_fitness (pop m)] \<and>
         historical_global_position m' =
           historical_global_position m @ [global_best_position (pop m)] \<and>
         (\<exists>r. historical_radius m' = historical_radius m @ [r]) \<and>
         (\<exists>s. historical_stagnation m' = historical_stagnation m @ [s]) \<and>
         np_mean0 (positions (pop m)) = Inr (historical_centroid m')"
  using assms by (rule update_historicals_Inr) simp

text \<open>
  C8: the record is not append-only for the centroid. Called a second time, after the
  agent has moved, it appends one entry to each of the sequences of the fitness, of the
  position, of the radius and of the stagnation and leaves the population as it is, but
  the centroid recorded before is replaced by the new one.
\<close>

theorem record_replaces_centroid:
  "update_historicals moved = Inr moved_result \<and>
   pop moved_result = pop moved \<and>
   historical_global_fitness moved_result = historical_global_fitness moved @ [Finite 0] \<and>
   historical_global_position moved_result = historical_global_position moved @ [0] \<and>
   historical_radius moved_result = historical_radius moved @ [Finite 0] \<and>
   historical_stagnation moved_result = historical_stagnation moved @ [1] \<and>
   historical_centroid moved = Vector [Finite 0, Finite 0] \<and>
   historical_centroid moved_result = Vector [Finite 1, Finite 1]"
  by (simp add: update_moved) (simp add: moved_def moved_result_def)

subsection \<open>Sums, norms and maxima of doubles with a common property\<close>










subsection \<open>Doubles that are not negative\<close>







lemma py_le_nan [simp]: "\<not> py_le x NaN" "\<not> py_le NaN x"
  by (cases x; simp add: py_le_def)+







subsection \<open>The rows of a difference\<close>








subsection \<open>The radius\<close>








subsection \<open>Three agents at one tenth\<close>














subsection \<open>An agent at infinity\<close>



subsection \<open>A population without agents\<close>

text \<open>
  With an empty list of positions the centroid is the number NaN, and the radius is 0, the
  largest of the norms of rows without columns, as long as the engine counts an agent;
  the maximum of no norm at all raises.
\<close>

lemma record_without_agents:
  "np_mean0 [] = Inr (Scalar NaN)"
  "radius_of [] (Scalar NaN) 3 = Inr (Finite 0)"
  "radius_of [] (Scalar NaN) 0 = Inl ValueError"
  by (simp_all add: np_mean0_def add_reduce_def pairwise_sum_short div_count_def radius_of_def
      np_tile_def as_matrix_def np_subtract_def broadcast_def stretch_def np_norm_rows_def
      np_max_def numeral_3_eq_3)

end
